theory Spec2Isabelle
  imports Complex_Main "HOL-Library.Sublist"
begin

section \<open>Values of a diagnostic snapshot\<close>

text \<open>
  The analyzer of \<^verbatim>\<open>tools/analyze_evidence.py\<close> receives what \<^verbatim>\<open>json.load\<close> returns:
  Python values built from \<^verbatim>\<open>None\<close>, booleans, integers, floats, strings, lists and
  dictionaries with string keys. A dictionary is an association list in insertion order (the
  order \<^verbatim>\<open>items()\<close> iterates in); the keys of a Python dictionary are distinct. Strings are
  byte lists in UTF-8. Of a float the analyzer only ever observes whether it is zero.
\<close>

datatype pyfloat = Finite rat | PosInf | NegInf | NaN

datatype json =
    JNull
  | JBool bool
  | JInt int
  | JFloat pyfloat
  | JStr string
  | JList "json list"
  | JDict "(string \<times> json) list"

type_synonym pydict = "(string \<times> json) list"

text \<open>The two exceptions the analyzer's expressions can raise.\<close>

datatype error = AttributeError | TypeError

subsection \<open>Python built-ins used by the analyzer\<close>

text \<open>\<^verbatim>\<open>d.get(k, dflt)\<close> on a dictionary: the stored value (even \<^verbatim>\<open>None\<close>) or the default.\<close>

definition dict_get :: "pydict \<Rightarrow> string \<Rightarrow> json \<Rightarrow> json" where
  "dict_get d k dflt = (case map_of d k of None \<Rightarrow> dflt | Some v \<Rightarrow> v)"

text \<open>
  \<^verbatim>\<open>v.get(k, dflt)\<close> on a value of any type: only dictionaries have the method, every
  other value raises \<^verbatim>\<open>AttributeError\<close>. \<^verbatim>\<open>v.get(k)\<close> is \<^verbatim>\<open>v.get(k, None)\<close>.
\<close>

definition get :: "json \<Rightarrow> string \<Rightarrow> json \<Rightarrow> error + json" where
  "get v k dflt = (case v of JDict d \<Rightarrow> Inr (dict_get d k dflt) | _ \<Rightarrow> Inl AttributeError)"

text \<open>\<^verbatim>\<open>v.items()\<close>: the entries of a dictionary in insertion order.\<close>

definition items :: "json \<Rightarrow> error + (string \<times> json) list" where
  "items v = (case v of JDict d \<Rightarrow> Inr d | _ \<Rightarrow> Inl AttributeError)"

text \<open>
  \<^verbatim>\<open>for item in v\<close>: a list yields its elements, a dictionary its keys, a string its
  characters (each a string again); the other values are not iterable.
\<close>

definition iterate :: "json \<Rightarrow> error + json list" where
  "iterate v =
     (case v of
        JList xs \<Rightarrow> Inr xs
      | JDict d \<Rightarrow> Inr (map (\<lambda>kv. JStr (fst kv)) d)
      | JStr s \<Rightarrow> Inr (map (\<lambda>c. JStr [c]) s)
      | _ \<Rightarrow> Inl TypeError)"

text \<open>
  \<^verbatim>\<open>s in v\<close> for a string \<open>s\<close>: substring test on a string, membership by \<^verbatim>\<open>==\<close> on a list,
  key membership on a dictionary, \<^verbatim>\<open>TypeError\<close> on every other value.
\<close>

definition py_in :: "string \<Rightarrow> json \<Rightarrow> error + bool" where
  "py_in s v =
     (case v of
        JStr t \<Rightarrow> Inr (sublist s t)
      | JList xs \<Rightarrow> Inr (JStr s \<in> set xs)
      | JDict d \<Rightarrow> Inr (s \<in> set (map fst d))
      | _ \<Rightarrow> Inl TypeError)"

text \<open>Truth value of a Python value, as \<^verbatim>\<open>if\<close> and \<^verbatim>\<open>and\<close> take it.\<close>

fun truthy :: "json \<Rightarrow> bool" where
  "truthy JNull = False"
| "truthy (JBool b) = b"
| "truthy (JInt i) = (i \<noteq> 0)"
| "truthy (JFloat f) = (f \<noteq> Finite 0)"
| "truthy (JStr s) = (s \<noteq> [])"
| "truthy (JList xs) = (xs \<noteq> [])"
| "truthy (JDict d) = (d \<noteq> [])"

text \<open>\<^verbatim>\<open>str(n)\<close> for the non-negative integers \<^verbatim>\<open>len\<close> returns, used by the f-strings.\<close>

fun str_of_nat :: "nat \<Rightarrow> string" where
  "str_of_nat n =
     (if n < 10 then [char_of (48 + n)]
      else str_of_nat (n div 10) @ [char_of (48 + n mod 10)])"

declare str_of_nat.simps [simp del]

section \<open>Findings, report and analyzer state\<close>

text \<open>
  The dictionaries the analyzer builds have fixed keys and are records here. An issue has
  the keys \<^verbatim>\<open>type\<close>, \<^verbatim>\<open>description\<close>, \<^verbatim>\<open>severity\<close>, \<^verbatim>\<open>evidence\<close> and, depending on its
  type, \<^verbatim>\<open>affected_views\<close>, \<^verbatim>\<open>items\<close>, or \<^verbatim>\<open>last_backup\<close> with \<^verbatim>\<open>validation_performed\<close>.
\<close>

record epoch_item =
  service :: json
  account :: json
  creation_date :: json
  modification_date :: json

datatype payload =
    NoPayload
  | AffectedViews "string list"
  | Items "epoch_item list"
  | Backup json json

record issue =
  issue_type :: string
  description :: string
  payload :: payload
  issue_severity :: string
  evidence :: string

record finding =
  name :: string
  issues :: "issue list"
  severity :: string

record summary =
  total_findings :: int
  total_issues :: int
  high_severity_findings :: int
  corruption_score :: int
  assessment :: string

record report =
  timestamp :: string
  summary :: summary
  findings :: "finding list"
  recommendations :: "string list"

text \<open>The two attributes of an \<^verbatim>\<open>EvidenceAnalyzer\<close> instance, and \<^verbatim>\<open>__init__\<close>.\<close>

record analyzer =
  self_findings :: "finding list"
  self_corruption_score :: int

definition init :: analyzer where
  "init = \<lparr>self_findings = [], self_corruption_score = 0\<rparr>"

section \<open>The signature rules\<close>

subsection \<open>\<^verbatim>\<open>analyze_keychain_status\<close>\<close>

definition circle_status_issue :: issue where
  "circle_status_issue =
     \<lparr>issue_type = ''circle_status_error'',
      description = ''circle_status is 'Error' - indicates keychain sync failure'',
      payload = NoPayload,
      issue_severity = ''high'',
      evidence = ''CloudCompromise.md Finding 1, line 115''\<rparr>"

definition unknown_views_issue :: "string list \<Rightarrow> issue" where
  "unknown_views_issue unknown_views =
     \<lparr>issue_type = ''unknown_pcs_views'',
      description =
        str_of_nat (length unknown_views) @ '' PCS views showing 'unknown' status'',
      payload = AffectedViews unknown_views,
      issue_severity = (if int (length unknown_views) > 5 then ''high'' else ''medium''),
      evidence = ''CloudCompromise.md Finding 1, lines 117-127''\<rparr>"

definition analyze_keychain_status ::
  "analyzer \<Rightarrow> pydict \<Rightarrow> error + (finding \<times> analyzer)" where
  "analyze_keychain_status self data =
     (let result = \<lparr>name = ''Keychain Status Analysis'', issues = [], severity = ''none''\<rparr>;
          status = dict_get data ''status_keychain'' (JDict [])
      in case get status ''circle_status'' JNull of
           Inl e \<Rightarrow> Inl e
         | Inr circle_status \<Rightarrow>
             let (result, self) =
                   (if circle_status = JStr ''Error''
                    then (result\<lparr>issues := issues result @ [circle_status_issue],
                                 severity := ''high''\<rparr>,
                          self\<lparr>self_corruption_score := self_corruption_score self + 3\<rparr>)
                    else (result, self))
             in (case get status ''view_status'' (JDict []) of
                   Inl e \<Rightarrow> Inl e
                 | Inr view_status \<Rightarrow>
                     (case items view_status of
                        Inl e \<Rightarrow> Inl e
                      | Inr entries \<Rightarrow>
                          let unknown_views =
                                [view. (view, state) \<leftarrow> entries, state = JStr ''unknown'']
                          in if unknown_views \<noteq> []
                             then Inr (result\<lparr>issues := issues result
                                                 @ [unknown_views_issue unknown_views],
                                              severity := ''high''\<rparr>,
                                       self\<lparr>self_corruption_score :=
                                              self_corruption_score self
                                              + int (length unknown_views)\<rparr>)
                             else Inr (result, self))))"

subsection \<open>\<^verbatim>\<open>analyze_timestamps\<close>\<close>

definition epoch_issue :: "epoch_item list \<Rightarrow> issue" where
  "epoch_issue epoch_items =
     \<lparr>issue_type = ''epoch_timestamps'',
      description =
        ''Found '' @ str_of_nat (length epoch_items)
        @ '' keychain items with epoch timestamps'',
      payload = Items epoch_items,
      issue_severity = ''high'',
      evidence = ''CloudCompromise.md Finding 2, line 145''\<rparr>"

text \<open>
  The body of the \<^verbatim>\<open>for\<close> loop, for one item: the item appended to \<^verbatim>\<open>epoch_items\<close>, if
  any. The \<^verbatim>\<open>or\<close> does not evaluate its right operand when the left one is true.
\<close>

definition epoch_match :: "json \<Rightarrow> error + epoch_item option" where
  "epoch_match item =
     (case get item ''creation_date'' (JStr []) of
        Inl e \<Rightarrow> Inl e
      | Inr created \<Rightarrow>
          (case get item ''modification_date'' (JStr []) of
             Inl e \<Rightarrow> Inl e
           | Inr modified \<Rightarrow>
               (case (case py_in ''1970-01-01'' created of
                        Inl e \<Rightarrow> Inl e
                      | Inr True \<Rightarrow> Inr True
                      | Inr False \<Rightarrow> py_in ''1970-01-01'' modified) of
                  Inl e \<Rightarrow> Inl e
                | Inr False \<Rightarrow> Inr None
                | Inr True \<Rightarrow>
                    (case get item ''service'' JNull of
                       Inl e \<Rightarrow> Inl e
                     | Inr sv \<Rightarrow>
                         (case get item ''account'' JNull of
                            Inl e \<Rightarrow> Inl e
                          | Inr ac \<Rightarrow>
                              Inr (Some \<lparr>service = sv, account = ac,
                                         creation_date = created,
                                         modification_date = modified\<rparr>))))))"

fun epoch_loop :: "json list \<Rightarrow> epoch_item list \<Rightarrow> error + epoch_item list" where
  "epoch_loop [] epoch_items = Inr epoch_items"
| "epoch_loop (item # rest) epoch_items =
     (case epoch_match item of
        Inl e \<Rightarrow> Inl e
      | Inr None \<Rightarrow> epoch_loop rest epoch_items
      | Inr (Some it) \<Rightarrow> epoch_loop rest (epoch_items @ [it]))"

definition analyze_timestamps ::
  "analyzer \<Rightarrow> pydict \<Rightarrow> error + (finding \<times> analyzer)" where
  "analyze_timestamps self data =
     (let result = \<lparr>name = ''Timestamp Validation'', issues = [], severity = ''none''\<rparr>
      in case iterate (dict_get data ''keychain_items'' (JList [])) of
           Inl e \<Rightarrow> Inl e
         | Inr its \<Rightarrow>
             (case epoch_loop its [] of
                Inl e \<Rightarrow> Inl e
              | Inr epoch_items \<Rightarrow>
                  if epoch_items \<noteq> []
                  then Inr (result\<lparr>issues := issues result @ [epoch_issue epoch_items],
                                   severity := ''high''\<rparr>,
                            self\<lparr>self_corruption_score :=
                                   self_corruption_score self
                                   + int (length epoch_items) * 2\<rparr>)
                  else Inr (result, self)))"

subsection \<open>\<^verbatim>\<open>analyze_backup_metadata\<close>\<close>

definition backup_issue :: "json \<Rightarrow> json \<Rightarrow> issue" where
  "backup_issue last_backup validation_performed =
     \<lparr>issue_type = ''active_backup_without_validation'',
      description = ''iCloud backup is active but no validation performed'',
      payload = Backup last_backup validation_performed,
      issue_severity = ''high'',
      evidence = ''CloudCompromise.md Finding 3, lines 159-167''\<rparr>"

definition analyze_backup_metadata ::
  "analyzer \<Rightarrow> pydict \<Rightarrow> error + (finding \<times> analyzer)" where
  "analyze_backup_metadata self data =
     (let result = \<lparr>name = ''Backup Activity Analysis'', issues = [], severity = ''none''\<rparr>;
          metadata = dict_get data ''backup_metadata'' (JDict []);
          integrity = dict_get data ''integrity_checks'' (JDict [])
      in case get metadata ''SyncZoneFetched'' (JBool False) of
           Inl e \<Rightarrow> Inl e
         | Inr sync_active \<Rightarrow>
             (case get metadata ''NilBackupDateFetchDate'' JNull of
                Inl e \<Rightarrow> Inl e
              | Inr last_backup \<Rightarrow>
                  if truthy sync_active \<and> truthy last_backup
                  then (case get integrity ''keychain_validated'' (JBool False) of
                          Inl e \<Rightarrow> Inl e
                        | Inr validated \<Rightarrow>
                            Inr (result\<lparr>issues := issues result
                                            @ [backup_issue last_backup validated],
                                         severity := ''high''\<rparr>,
                                 self\<lparr>self_corruption_score :=
                                        self_corruption_score self + 2\<rparr>))
                  else Inr (result, self)))"

section \<open>Classification, recommendations and the orchestrator\<close>

text \<open>
  \<^verbatim>\<open>_assess_corruption_level\<close> and \<^verbatim>\<open>_generate_recommendations\<close>, without the leading
  underscore that an Isabelle name cannot have.
\<close>

definition assess_corruption_level :: "analyzer \<Rightarrow> string" where
  "assess_corruption_level self =
     (if self_corruption_score self \<ge> 10
      then ''SEVERE - Multiple corruption indicators present''
      else if self_corruption_score self \<ge> 5
      then ''MODERATE - Significant corruption detected''
      else if self_corruption_score self > 0
      then ''MILD - Some issues detected''
      else ''CLEAN - No corruption indicators found'')"

definition generate_recommendations :: "analyzer \<Rightarrow> string list" where
  "generate_recommendations self =
     (let recommendations = [];
          recommendations =
            (if self_corruption_score self > 0
             then recommendations @
                  [''DO NOT restore from this backup to new devices'',
                   ''Collect sysdiagnose for documentation'',
                   ''Contact Apple Support with case reference'',
                   ''Consider creating new clean backup after remediation'']
             else recommendations);
          recommendations =
            (if self_corruption_score self \<ge> 10
             then ''URGENT: Severe corruption detected - avoid using this backup''
                  # recommendations
             else recommendations)
      in recommendations)"

text \<open>
  \<^verbatim>\<open>analyze_all\<close>. The clock reading \<^verbatim>\<open>datetime.utcnow().isoformat()\<close> is the parameter
  \<open>now\<close>. An exception of a rule leaves \<^verbatim>\<open>analyze_all\<close> at once.
\<close>

definition analyze_all :: "string \<Rightarrow> analyzer \<Rightarrow> pydict \<Rightarrow> error + (report \<times> analyzer)" where
  "analyze_all now self data =
     (let self = self\<lparr>self_findings := []\<rparr>;
          self = self\<lparr>self_corruption_score := 0\<rparr>
      in case analyze_keychain_status self data of
           Inl e \<Rightarrow> Inl e
         | Inr (r1, self) \<Rightarrow>
             (let self = self\<lparr>self_findings := self_findings self @ [r1]\<rparr>
              in (case analyze_timestamps self data of
                    Inl e \<Rightarrow> Inl e
                  | Inr (r2, self) \<Rightarrow>
                      (let self = self\<lparr>self_findings := self_findings self @ [r2]\<rparr>
                       in (case analyze_backup_metadata self data of
                             Inl e \<Rightarrow> Inl e
                           | Inr (r3, self) \<Rightarrow>
                               (let self = self\<lparr>self_findings :=
                                                  self_findings self @ [r3]\<rparr>;
                                    total_issues =
                                      sum_list (map (\<lambda>f. int (length (issues f)))
                                                  (self_findings self));
                                    high_severity =
                                      sum_list (map (\<lambda>f. 1)
                                                  (filter (\<lambda>f. severity f = ''high'')
                                                     (self_findings self)))
                                in Inr (\<lparr>timestamp = now,
                                         summary =
                                           \<lparr>total_findings =
                                              int (length (self_findings self)),
                                            total_issues = total_issues,
                                            high_severity_findings = high_severity,
                                            corruption_score = self_corruption_score self,
                                            assessment = assess_corruption_level self\<rparr>,
                                         findings = self_findings self,
                                         recommendations =
                                           generate_recommendations self\<rparr>,
                                        self)))))))"

section \<open>Reading a snapshot\<close>

text \<open>
  The vocabulary of the properties below: the fields of a snapshot that the rules read,
  with the defaults the code gives them when a key is missing, and the shape that
  section 3 of the specification gives each field.
\<close>

definition is_dict :: "json \<Rightarrow> bool" where
  "is_dict v = (case v of JDict d \<Rightarrow> True | _ \<Rightarrow> False)"

definition is_str :: "json \<Rightarrow> bool" where
  "is_str v = (case v of JStr s \<Rightarrow> True | _ \<Rightarrow> False)"

definition entries_of :: "json \<Rightarrow> pydict" where
  "entries_of v = (case v of JDict d \<Rightarrow> d | _ \<Rightarrow> [])"

definition elements_of :: "json \<Rightarrow> json list" where
  "elements_of v = (case v of JList xs \<Rightarrow> xs | _ \<Rightarrow> [])"

definition text_of :: "json \<Rightarrow> string" where
  "text_of v = (case v of JStr s \<Rightarrow> s | _ \<Rightarrow> [])"

definition status_keychain :: "pydict \<Rightarrow> json" where
  "status_keychain data = dict_get data ''status_keychain'' (JDict [])"

definition circle_status :: "pydict \<Rightarrow> json" where
  "circle_status data = dict_get (entries_of (status_keychain data)) ''circle_status'' JNull"

definition view_status :: "pydict \<Rightarrow> json" where
  "view_status data = dict_get (entries_of (status_keychain data)) ''view_status'' (JDict [])"

definition keychain_items :: "pydict \<Rightarrow> json" where
  "keychain_items data = dict_get data ''keychain_items'' (JList [])"

definition created :: "json \<Rightarrow> json" where
  "created item = dict_get (entries_of item) ''creation_date'' (JStr [])"

definition modified :: "json \<Rightarrow> json" where
  "modified item = dict_get (entries_of item) ''modification_date'' (JStr [])"

definition backup_metadata :: "pydict \<Rightarrow> json" where
  "backup_metadata data = dict_get data ''backup_metadata'' (JDict [])"

definition integrity_checks :: "pydict \<Rightarrow> json" where
  "integrity_checks data = dict_get data ''integrity_checks'' (JDict [])"

definition sync_active :: "pydict \<Rightarrow> json" where
  "sync_active data =
     dict_get (entries_of (backup_metadata data)) ''SyncZoneFetched'' (JBool False)"

definition last_backup :: "pydict \<Rightarrow> json" where
  "last_backup data =
     dict_get (entries_of (backup_metadata data)) ''NilBackupDateFetchDate'' JNull"

definition keychain_validated :: "pydict \<Rightarrow> json" where
  "keychain_validated data =
     dict_get (entries_of (integrity_checks data)) ''keychain_validated'' (JBool False)"

text \<open>The four signatures.\<close>

definition circle_error :: "pydict \<Rightarrow> bool" where
  "circle_error data = (circle_status data = JStr ''Error'')"

definition unknown_views :: "pydict \<Rightarrow> string list" where
  "unknown_views data =
     map fst (filter (\<lambda>kv. snd kv = JStr ''unknown'') (entries_of (view_status data)))"

definition has_epoch_date :: "json \<Rightarrow> bool" where
  "has_epoch_date item =
     (sublist ''1970-01-01'' (text_of (created item)) \<or>
      sublist ''1970-01-01'' (text_of (modified item)))"

definition epoch_entries :: "pydict \<Rightarrow> json list" where
  "epoch_entries data = filter has_epoch_date (elements_of (keychain_items data))"

definition as_epoch_item :: "json \<Rightarrow> epoch_item" where
  "as_epoch_item item =
     \<lparr>service = dict_get (entries_of item) ''service'' JNull,
      account = dict_get (entries_of item) ''account'' JNull,
      creation_date = created item,
      modification_date = modified item\<rparr>"

definition backup_active :: "pydict \<Rightarrow> bool" where
  "backup_active data = (truthy (sync_active data) \<and> truthy (last_backup data))"

text \<open>
  The shapes: a section that is present is a mapping, the keychain items are a sequence of
  mappings whose timestamps, when present, are strings. Every key may be missing.
\<close>

definition keychain_shaped :: "pydict \<Rightarrow> bool" where
  "keychain_shaped data = (is_dict (status_keychain data) \<and> is_dict (view_status data))"

definition item_shaped :: "json \<Rightarrow> bool" where
  "item_shaped item = (is_dict item \<and> is_str (created item) \<and> is_str (modified item))"

definition timestamps_shaped :: "pydict \<Rightarrow> bool" where
  "timestamps_shaped data =
     (case keychain_items data of JList its \<Rightarrow> list_all item_shaped its | _ \<Rightarrow> False)"

definition backup_shaped :: "pydict \<Rightarrow> bool" where
  "backup_shaped data = (is_dict (backup_metadata data) \<and> is_dict (integrity_checks data))"

definition well_shaped :: "pydict \<Rightarrow> bool" where
  "well_shaped data =
     (keychain_shaped data \<and> timestamps_shaped data \<and> backup_shaped data)"

section \<open>Example snapshots\<close>

text \<open>
  The scenarios of section 8 of the specification, as concrete snapshots: eleven views all
  \<^verbatim>\<open>unknown\<close> with a circle error and one epoch-dated item; the clean capture; and captures
  whose scores fall on both sides of each boundary.
\<close>

definition now0 :: string where
  "now0 = ''2025-06-01T12:00:00.000000''"

definition views :: "string list \<Rightarrow> string \<Rightarrow> json" where
  "views names state = JDict (map (\<lambda>n. (n, JStr state)) names)"

definition snapshot_severe :: pydict where
  "snapshot_severe =
     [(''status_keychain'',
         JDict [(''circle_status'', JStr ''Error''),
                (''view_status'',
                   views [''v01'', ''v02'', ''v03'', ''v04'', ''v05'', ''v06'', ''v07'',
                          ''v08'', ''v09'', ''v10'', ''v11''] ''unknown'')]),
      (''keychain_items'',
         JList [JDict [(''service'', JStr ''com.apple.cloudd''),
                       (''account'', JStr ''primary''),
                       (''creation_date'', JStr ''1970-01-01T00:11:19Z''),
                       (''modification_date'', JStr ''2024-01-15T10:30:00Z'')]])]"

definition snapshot_clean :: pydict where
  "snapshot_clean =
     [(''status_keychain'',
         JDict [(''circle_status'', JStr ''In Circle''),
                (''view_status'', views [''v01'', ''v02''] ''enabled'')]),
      (''keychain_items'',
         JList [JDict [(''service'', JStr ''com.apple.cloudd''),
                       (''account'', JStr ''primary''),
                       (''creation_date'', JStr ''2024-01-15T10:30:00Z''),
                       (''modification_date'', JStr ''2024-01-15T10:30:00Z'')]]),
      (''backup_metadata'', JDict [(''SyncZoneFetched'', JBool False)]),
      (''integrity_checks'', JDict [(''keychain_validated'', JBool True)])]"

definition snapshot_five :: pydict where
  "snapshot_five =
     [(''status_keychain'', JDict [(''circle_status'', JStr ''Error'')]),
      (''backup_metadata'',
         JDict [(''SyncZoneFetched'', JBool True),
                (''NilBackupDateFetchDate'', JStr ''2025-03-02T08:00:00Z'')])]"

definition snapshot_ten :: pydict where
  "snapshot_ten =
     [(''status_keychain'',
         JDict [(''circle_status'', JStr ''Error''),
                (''view_status'',
                   JDict [(''v01'', JStr ''unknown''), (''v02'', JStr ''unknown''),
                          (''v03'', JStr ''enabled''), (''v04'', JStr ''unknown''),
                          (''v05'', JStr ''unknown''), (''v06'', JStr ''unknown'')])]),
      (''backup_metadata'',
         JDict [(''SyncZoneFetched'', JBool True),
                (''NilBackupDateFetchDate'', JStr ''2025-03-02T08:00:00Z'')]),
      (''integrity_checks'', JDict [(''keychain_validated'', JBool True)])]"

definition snapshot_six :: pydict where
  "snapshot_six =
     [(''status_keychain'',
         JDict [(''view_status'',
                   views [''v01'', ''v02'', ''v03'', ''v04'', ''v05'', ''v06''] ''unknown'')])]"

definition snapshot_epoch :: pydict where
  "snapshot_epoch =
     [(''keychain_items'',
         JList [JDict [(''service'', JStr ''s1''),
                       (''creation_date'', JStr ''1970-01-01T00:11:19Z'')],
                JDict [(''service'', JStr ''s2''),
                       (''creation_date'', JStr ''2024-01-15T10:30:00Z''),
                       (''modification_date'', JStr ''2024-01-15T10:30:00Z'')],
                JDict [(''service'', JStr ''s3''),
                       (''creation_date'', JStr ''2024-01-15T10:30:00Z''),
                       (''modification_date'', JStr ''1970-01-01 00:00:00 +0000'')]])]"

text \<open>The report of an analysis that returned, for stating facts about concrete runs.\<close>

definition returned :: "error + (report \<times> analyzer) \<Rightarrow> report option" where
  "returned res = (case res of Inl e \<Rightarrow> None | Inr (r, self) \<Rightarrow> Some r)"

text \<open>
  One snapshot shows at least the signatures of another: each of the four signatures is
  present in the second at least as much as in the first.
\<close>

definition signatures_le :: "pydict \<Rightarrow> pydict \<Rightarrow> bool" where
  "signatures_le data data' =
     ((circle_error data \<longrightarrow> circle_error data') \<and>
      length (unknown_views data) \<le> length (unknown_views data') \<and>
      length (epoch_entries data) \<le> length (epoch_entries data') \<and>
      (backup_active data \<longrightarrow> backup_active data'))"

text \<open>The outcome of a call with the clock reading of the report blanked.\<close>

definition drop_timestamp :: "error + (report \<times> analyzer) \<Rightarrow> error + (report \<times> analyzer)" where
  "drop_timestamp res =
     (case res of Inl e \<Rightarrow> Inl e | Inr (r, self) \<Rightarrow> Inr (r\<lparr>timestamp := []\<rparr>, self))"

text \<open>The issues of a group that the PCS-view rule emitted.\<close>

definition pcs_view_issues :: "finding \<Rightarrow> issue list" where
  "pcs_view_issues res = filter (\<lambda>i. issue_type i = ''unknown_pcs_views'') (issues res)"

definition is_bool :: "json \<Rightarrow> bool" where
  "is_bool v = (case v of JBool b \<Rightarrow> True | _ \<Rightarrow> False)"

section \<open>The wording of the specification\<close>

text \<open>
  Sections 4.3 and 4.4 of the specification give the assessment labels and the
  recommendations as literal texts. They are written down here as the specification words
  them, to be compared with the texts of the code. The dash of the specification is the
  em dash U+2014, three bytes in UTF-8.
\<close>

definition em_dash :: string where
  "em_dash = [CHR 0xE2, CHR 0x80, CHR 0x94]"

definition spec_assessment :: "int \<Rightarrow> string" where
  "spec_assessment score =
     (if score \<ge> 10
      then ''SEVERE '' @ em_dash @ '' Multiple corruption indicators present''
      else if score \<ge> 5
      then ''MODERATE '' @ em_dash @ '' Significant corruption detected''
      else if score > 0
      then ''MILD '' @ em_dash @ '' Some issues detected''
      else ''CLEAN '' @ em_dash @ '' No corruption indicators found'')"

definition spec_recommendations :: "int \<Rightarrow> string list" where
  "spec_recommendations score =
     (if score > 0
      then (if score \<ge> 10
            then [''URGENT: severe corruption detected '' @ em_dash
                  @ '' avoid using this backup'']
            else [])
           @ [''do not restore this backup to new devices'',
              ''collect a full diagnostic capture for documentation'',
              ''escalate with support referencing this analysis'',
              ''create a new backup only after remediation'']
      else [])"

section \<open>Auxiliary facts\<close>

subsection \<open>What every returned result satisfies\<close>

lemma reset_is_init: "self\<lparr>self_findings := [], self_corruption_score := 0\<rparr> = init"
  by (simp add: init_def)

lemma listcompr_unknown:
  "[view. (view, state) \<leftarrow> entries, state = JStr ''unknown'']
   = map fst (filter (\<lambda>kv. snd kv = JStr ''unknown'') entries)"
  by (induction entries) auto

lemma keychain_general:
  assumes "analyze_keychain_status self data = Inr (res, self')"
  shows "self_findings self' = self_findings self"
    and "self_corruption_score self \<le> self_corruption_score self'"
    and "name res = ''Keychain Status Analysis''"
    and "severity res = (if issues res = [] then ''none'' else ''high'')"
  using assms
  by (auto simp: analyze_keychain_status_def Let_def split: sum.splits if_splits prod.splits)

lemma timestamps_general:
  assumes "analyze_timestamps self data = Inr (res, self')"
  shows "self_findings self' = self_findings self"
    and "self_corruption_score self \<le> self_corruption_score self'"
    and "name res = ''Timestamp Validation''"
    and "severity res = (if issues res = [] then ''none'' else ''high'')"
  using assms
  by (auto simp: analyze_timestamps_def Let_def split: sum.splits if_splits prod.splits)

lemma backup_general:
  assumes "analyze_backup_metadata self data = Inr (res, self')"
  shows "self_findings self' = self_findings self"
    and "self_corruption_score self \<le> self_corruption_score self'"
    and "name res = ''Backup Activity Analysis''"
    and "severity res = (if issues res = [] then ''none'' else ''high'')"
  using assms
  by (auto simp: analyze_backup_metadata_def Let_def split: sum.splits if_splits prod.splits)

lemma analyze_all_Inr:
  assumes "analyze_all now self data = Inr (r, self')"
  shows "\<exists>r1 s1 r2 s2 r3 s3.
           analyze_keychain_status init data = Inr (r1, s1) \<and>
           analyze_timestamps (s1\<lparr>self_findings := self_findings s1 @ [r1]\<rparr>) data = Inr (r2, s2) \<and>
           analyze_backup_metadata (s2\<lparr>self_findings := self_findings s2 @ [r2]\<rparr>) data = Inr (r3, s3) \<and>
           self' = s3\<lparr>self_findings := self_findings s3 @ [r3]\<rparr> \<and>
           r = \<lparr>timestamp = now,
                summary = \<lparr>total_findings = int (length (self_findings self')),
                            total_issues = sum_list (map (\<lambda>f. int (length (issues f))) (self_findings self')),
                            high_severity_findings = sum_list (map (\<lambda>f. 1) (filter (\<lambda>f. severity f = ''high'') (self_findings self'))),
                            corruption_score = self_corruption_score self',
                            assessment = assess_corruption_level self'\<rparr>,
                findings = self_findings self',
                recommendations = generate_recommendations self'\<rparr>"
  using assms
  by (auto simp: analyze_all_def reset_is_init Let_def split: sum.splits prod.splits)

subsection \<open>The rules on a snapshot of the expected shape\<close>

lemma is_dictE: "is_dict v \<Longrightarrow> (\<And>d. v = JDict d \<Longrightarrow> P) \<Longrightarrow> P"
  by (cases v) (auto simp: is_dict_def)

lemma is_strE: "is_str v \<Longrightarrow> (\<And>s. v = JStr s \<Longrightarrow> P) \<Longrightarrow> P"
  by (cases v) (auto simp: is_str_def)

lemma keychain_shaped_result:
  assumes "keychain_shaped data"
  shows "analyze_keychain_status self data =
     Inr (\<lparr>name = ''Keychain Status Analysis'',
           issues = (if circle_error data then [circle_status_issue] else [])
                    @ (if unknown_views data = [] then []
                       else [unknown_views_issue (unknown_views data)]),
           severity = (if circle_error data \<or> unknown_views data \<noteq> []
                       then ''high'' else ''none'')\<rparr>,
          self\<lparr>self_corruption_score :=
                 self_corruption_score self + (if circle_error data then 3 else 0)
                 + int (length (unknown_views data))\<rparr>)"
proof -
  from assms obtain st where st: "status_keychain data = JDict st"
    by (auto simp: keychain_shaped_def elim: is_dictE)
  from assms st obtain vs where vs: "dict_get st ''view_status'' (JDict []) = JDict vs"
    by (auto simp: keychain_shaped_def view_status_def entries_of_def elim: is_dictE)
  have u: "unknown_views data = map fst (filter (\<lambda>kv. snd kv = JStr ''unknown'') vs)"
    by (simp add: unknown_views_def view_status_def st vs entries_of_def)
  have c: "circle_error data = (dict_get st ''circle_status'' JNull = JStr ''Error'')"
    by (simp add: circle_error_def circle_status_def st entries_of_def)
  show ?thesis
    using st vs
    by (simp add: analyze_keychain_status_def status_keychain_def get_def items_def
        Let_def listcompr_unknown u c)
qed

lemma epoch_match_shaped:
  assumes "item_shaped item"
  shows "epoch_match item = Inr (if has_epoch_date item then Some (as_epoch_item item) else None)"
proof -
  from assms obtain d where d: "item = JDict d"
    by (auto simp: item_shaped_def elim: is_dictE)
  from assms obtain c where c: "created item = JStr c"
    by (auto simp: item_shaped_def elim: is_strE)
  from assms obtain m where m: "modified item = JStr m"
    by (auto simp: item_shaped_def elim: is_strE)
  show ?thesis
    using c m
    by (auto simp: epoch_match_def d get_def py_in_def has_epoch_date_def as_epoch_item_def
        created_def modified_def entries_of_def text_of_def split: bool.splits)
qed

lemma epoch_loop_shaped:
  "list_all item_shaped its \<Longrightarrow>
   epoch_loop its acc = Inr (acc @ map as_epoch_item (filter has_epoch_date its))"
  by (induction its arbitrary: acc) (simp_all add: epoch_match_shaped)

lemma timestamps_shaped_result:
  assumes "timestamps_shaped data"
  shows "analyze_timestamps self data =
     Inr (\<lparr>name = ''Timestamp Validation'',
           issues = (if epoch_entries data = [] then []
                     else [epoch_issue (map as_epoch_item (epoch_entries data))]),
           severity = (if epoch_entries data = [] then ''none'' else ''high'')\<rparr>,
          self\<lparr>self_corruption_score :=
                 self_corruption_score self + int (length (epoch_entries data)) * 2\<rparr>)"
proof -
  from assms obtain its where its: "keychain_items data = JList its" "list_all item_shaped its"
    by (auto simp: timestamps_shaped_def split: json.splits)
  show ?thesis
    using its
    by (simp add: analyze_timestamps_def keychain_items_def iterate_def epoch_loop_shaped
        epoch_entries_def elements_of_def)
qed

lemma backup_shaped_result:
  assumes "backup_shaped data"
  shows "analyze_backup_metadata self data =
     Inr (\<lparr>name = ''Backup Activity Analysis'',
           issues = (if backup_active data
                     then [backup_issue (last_backup data) (keychain_validated data)] else []),
           severity = (if backup_active data then ''high'' else ''none'')\<rparr>,
          self\<lparr>self_corruption_score :=
                 self_corruption_score self + (if backup_active data then 2 else 0)\<rparr>)"
proof -
  from assms obtain md where md: "backup_metadata data = JDict md"
    by (auto simp: backup_shaped_def elim: is_dictE)
  from assms obtain ic where ic: "integrity_checks data = JDict ic"
    by (auto simp: backup_shaped_def elim: is_dictE)
  show ?thesis
    using md ic
    by (simp add: analyze_backup_metadata_def backup_metadata_def integrity_checks_def
        get_def backup_active_def sync_active_def last_backup_def keychain_validated_def
        entries_of_def Let_def)
qed

subsection \<open>The report of a returning analysis\<close>

lemma analyze_all_report:
  assumes "analyze_all now self data = Inr (r, self')"
  shows "\<exists>r1 r2 r3.
           findings r = [r1, r2, r3] \<and>
           name r1 = ''Keychain Status Analysis'' \<and>
           name r2 = ''Timestamp Validation'' \<and>
           name r3 = ''Backup Activity Analysis'' \<and>
           (\<forall>g \<in> set [r1, r2, r3]. severity g = (if issues g = [] then ''none'' else ''high''))"
    and "self_findings self' = findings r"
    and "self_corruption_score self' = corruption_score (summary r)"
    and "0 \<le> corruption_score (summary r)"
    and "timestamp r = now"
    and "total_findings (summary r) = int (length (findings r))"
    and "total_issues (summary r) = sum_list (map (\<lambda>f. int (length (issues f))) (findings r))"
    and "high_severity_findings (summary r) =
           sum_list (map (\<lambda>f. 1) (filter (\<lambda>f. severity f = ''high'') (findings r)))"
    and "assessment (summary r) = assess_corruption_level self'"
    and "recommendations r = generate_recommendations self'"
proof -
  from analyze_all_Inr [OF assms] obtain r1 s1 r2 s2 r3 s3 where
    k: "analyze_keychain_status init data = Inr (r1, s1)" and
    t: "analyze_timestamps (s1\<lparr>self_findings := self_findings s1 @ [r1]\<rparr>) data = Inr (r2, s2)" and
    b: "analyze_backup_metadata (s2\<lparr>self_findings := self_findings s2 @ [r2]\<rparr>) data = Inr (r3, s3)" and
    s: "self' = s3\<lparr>self_findings := self_findings s3 @ [r3]\<rparr>" and
    r: "r = \<lparr>timestamp = now,
                summary = \<lparr>total_findings = int (length (self_findings self')),
                            total_issues = sum_list (map (\<lambda>f. int (length (issues f))) (self_findings self')),
                            high_severity_findings = sum_list (map (\<lambda>f. 1) (filter (\<lambda>f. severity f = ''high'') (self_findings self'))),
                            corruption_score = self_corruption_score self',
                            assessment = assess_corruption_level self'\<rparr>,
                findings = self_findings self',
                recommendations = generate_recommendations self'\<rparr>"
    by blast
  have f1: "self_findings s1 = []"
    using keychain_general(1) [OF k] by (simp add: init_def)
  have f2: "self_findings s2 = [r1]"
    using timestamps_general(1) [OF t] f1 by simp
  have f3: "self_findings s3 = [r1, r2]"
    using backup_general(1) [OF b] f2 by simp
  have fs: "self_findings self' = [r1, r2, r3]"
    using s f3 by simp
  have sc: "0 \<le> self_corruption_score self'"
    using keychain_general(2) [OF k] timestamps_general(2) [OF t] backup_general(2) [OF b] s
    by (simp add: init_def)
  show "\<exists>r1 r2 r3.
           findings r = [r1, r2, r3] \<and>
           name r1 = ''Keychain Status Analysis'' \<and>
           name r2 = ''Timestamp Validation'' \<and>
           name r3 = ''Backup Activity Analysis'' \<and>
           (\<forall>g \<in> set [r1, r2, r3]. severity g = (if issues g = [] then ''none'' else ''high''))"
    using r fs keychain_general(3,4) [OF k] timestamps_general(3,4) [OF t]
      backup_general(3,4) [OF b]
    by simp
  show "self_findings self' = findings r" using r by simp
  show "self_corruption_score self' = corruption_score (summary r)" using r by simp
  show "0 \<le> corruption_score (summary r)" using r sc by simp
  show "timestamp r = now" using r by simp
  show "total_findings (summary r) = int (length (findings r))" using r by simp
  show "total_issues (summary r) = sum_list (map (\<lambda>f. int (length (issues f))) (findings r))"
    using r by simp
  show "high_severity_findings (summary r) =
           sum_list (map (\<lambda>f. 1) (filter (\<lambda>f. severity f = ''high'') (findings r)))"
    using r by simp
  show "assessment (summary r) = assess_corruption_level self'" using r by simp
  show "recommendations r = generate_recommendations self'" using r by simp
qed

lemma analyze_all_empty:
  "analyze_all now self [] =
     Inr (\<lparr>timestamp = now,
           summary = \<lparr>total_findings = 3, total_issues = 0, high_severity_findings = 0,
                      corruption_score = 0,
                      assessment = ''CLEAN - No corruption indicators found''\<rparr>,
           findings =
             [\<lparr>name = ''Keychain Status Analysis'', issues = [], severity = ''none''\<rparr>,
              \<lparr>name = ''Timestamp Validation'', issues = [], severity = ''none''\<rparr>,
              \<lparr>name = ''Backup Activity Analysis'', issues = [], severity = ''none''\<rparr>],
           recommendations = []\<rparr>,
          \<lparr>self_findings =
             [\<lparr>name = ''Keychain Status Analysis'', issues = [], severity = ''none''\<rparr>,
              \<lparr>name = ''Timestamp Validation'', issues = [], severity = ''none''\<rparr>,
              \<lparr>name = ''Backup Activity Analysis'', issues = [], severity = ''none''\<rparr>],
           self_corruption_score = 0\<rparr>)"
  by (simp add: analyze_all_def analyze_keychain_status_def analyze_timestamps_def
      analyze_backup_metadata_def dict_get_def get_def items_def iterate_def Let_def
      assess_corruption_level_def generate_recommendations_def)

subsection \<open>The example snapshots\<close>

lemmas path_defs =
  status_keychain_def circle_status_def view_status_def keychain_items_def created_def
  modified_def backup_metadata_def integrity_checks_def sync_active_def last_backup_def
  keychain_validated_def circle_error_def unknown_views_def has_epoch_date_def
  epoch_entries_def as_epoch_item_def backup_active_def dict_get_def entries_of_def
  elements_of_def text_of_def views_def

lemmas shape_defs =
  well_shaped_def keychain_shaped_def timestamps_shaped_def backup_shaped_def
  item_shaped_def is_dict_def is_str_def

lemma analyze_all_shaped:
  assumes "well_shaped data"
  shows "\<exists>r self'. analyze_all now self data = Inr (r, self') \<and>
     findings r =
       [\<lparr>name = ''Keychain Status Analysis'',
         issues = (if circle_error data then [circle_status_issue] else [])
                  @ (if unknown_views data = [] then []
                     else [unknown_views_issue (unknown_views data)]),
         severity = (if circle_error data \<or> unknown_views data \<noteq> []
                     then ''high'' else ''none'')\<rparr>,
        \<lparr>name = ''Timestamp Validation'',
         issues = (if epoch_entries data = [] then []
                   else [epoch_issue (map as_epoch_item (epoch_entries data))]),
         severity = (if epoch_entries data = [] then ''none'' else ''high'')\<rparr>,
        \<lparr>name = ''Backup Activity Analysis'',
         issues = (if backup_active data
                   then [backup_issue (last_backup data) (keychain_validated data)] else []),
         severity = (if backup_active data then ''high'' else ''none'')\<rparr>] \<and>
     corruption_score (summary r) =
       (if circle_error data then 3 else 0) + int (length (unknown_views data))
       + int (length (epoch_entries data)) * 2 + (if backup_active data then 2 else 0)"
  using assms
  by (simp add: well_shaped_def analyze_all_def keychain_shaped_result
      timestamps_shaped_result backup_shaped_result Let_def)

lemma shaped_examples:
  "well_shaped snapshot_severe" "well_shaped snapshot_clean" "well_shaped snapshot_five"
  "well_shaped snapshot_ten" "well_shaped snapshot_six" "well_shaped snapshot_epoch"
  "well_shaped []"
  by (simp_all add: shape_defs path_defs snapshot_severe_def snapshot_clean_def
      snapshot_five_def snapshot_ten_def snapshot_six_def snapshot_epoch_def)

lemma signatures_examples:
  "circle_error snapshot_severe" "length (unknown_views snapshot_severe) = 11"
  "length (epoch_entries snapshot_severe) = 1" "\<not> backup_active snapshot_severe"
  "\<not> circle_error snapshot_clean" "unknown_views snapshot_clean = []"
  "epoch_entries snapshot_clean = []" "\<not> backup_active snapshot_clean"
  "circle_error snapshot_five" "unknown_views snapshot_five = []"
  "epoch_entries snapshot_five = []" "backup_active snapshot_five"
  "circle_error snapshot_ten"
  "unknown_views snapshot_ten = [''v01'', ''v02'', ''v04'', ''v05'', ''v06'']"
  "epoch_entries snapshot_ten = []" "backup_active snapshot_ten"
  "\<not> circle_error snapshot_six"
  "unknown_views snapshot_six = [''v01'', ''v02'', ''v03'', ''v04'', ''v05'', ''v06'']"
  "epoch_entries snapshot_six = []" "\<not> backup_active snapshot_six"
  "\<not> circle_error snapshot_epoch" "unknown_views snapshot_epoch = []"
  "length (epoch_entries snapshot_epoch) = 2" "\<not> backup_active snapshot_epoch"
  "\<not> circle_error []" "unknown_views [] = []" "epoch_entries [] = []" "\<not> backup_active []"
  by (simp_all add: path_defs snapshot_severe_def snapshot_clean_def
      snapshot_five_def snapshot_ten_def snapshot_six_def snapshot_epoch_def
      sublist_Cons_right)

section \<open>The claims\<close>

subsection \<open>C9: three finding groups\<close>

text \<open>
  Claim C9. Whenever \<^verbatim>\<open>analyze_all\<close> returns a report, its findings sequence has exactly
  three entries: the groups of the keychain-status analysis (circle-status and PCS-view
  rules), of the timestamp validation and of the backup-activity analysis, in this order, so
  that \<^verbatim>\<open>summary.total_findings\<close> is 3 however many signatures matched. The completely
  empty snapshot is analysed without an exception and has its three groups too.
\<close>

theorem three_finding_groups:
  "(analyze_all now self data = Inr (r, self') \<longrightarrow>
      length (findings r) = 3 \<and>
      total_findings (summary r) = 3 \<and>
      map name (findings r) =
        [''Keychain Status Analysis'', ''Timestamp Validation'', ''Backup Activity Analysis''])
   \<and> (\<exists>r0 s0. analyze_all now self [] = Inr (r0, s0) \<and>
          length (findings r0) = 3 \<and> total_findings (summary r0) = 3)"
proof (intro conjI impI)
  assume a: "analyze_all now self data = Inr (r, self')"
  from analyze_all_report(1) [OF a] obtain r1 r2 r3 where
    f: "findings r = [r1, r2, r3]" and
    n: "name r1 = ''Keychain Status Analysis''" "name r2 = ''Timestamp Validation''"
       "name r3 = ''Backup Activity Analysis''"
    by blast
  show "length (findings r) = 3" using f by simp
  show "total_findings (summary r) = 3" using analyze_all_report(6) [OF a] f by simp
  show "map name (findings r) =
        [''Keychain Status Analysis'', ''Timestamp Validation'', ''Backup Activity Analysis'']"
    using f n by simp
next
  show "\<exists>r0 s0. analyze_all now self [] = Inr (r0, s0) \<and>
          length (findings r0) = 3 \<and> total_findings (summary r0) = 3"
    by (simp add: analyze_all_empty)
qed

theorem three_finding_groups_witness:
  "map_option (length \<circ> findings) (returned (analyze_all now0 init snapshot_severe)) = Some 3 \<and>
   map_option (total_findings \<circ> summary) (returned (analyze_all now0 init snapshot_severe))
     = Some 3"
proof -
  obtain r s where a: "analyze_all now0 init snapshot_severe = Inr (r, s)"
    using analyze_all_shaped [OF shaped_examples(1)] by blast
  from three_finding_groups [of now0 init snapshot_severe r s] a
  show ?thesis by (simp add: returned_def)
qed

subsection \<open>C1: the corruption score\<close>

text \<open>
  Claim C1. For every snapshot of the expected shape (any key may be missing),
  \<^verbatim>\<open>analyze_all\<close> returns a report whose corruption score is exactly the sum of the weights
  of the rules that fired: 3 if \<^verbatim>\<open>circle_status\<close> equals \<^verbatim>\<open>"Error"\<close>, plus the number of
  \<^verbatim>\<open>view_status\<close> entries whose state is \<^verbatim>\<open>"unknown"\<close>, plus 2 times the number of
  keychain items whose creation or modification timestamp contains \<^verbatim>\<open>"1970-01-01"\<close>, plus
  2 if the backup-activity rule fires. The score is therefore non-negative, and it does not
  decrease when a second snapshot shows at least the signatures of the first.
\<close>

theorem corruption_score_weight_sum:
  assumes "well_shaped data" and "well_shaped data'" and "signatures_le data data'"
  shows "\<exists>r st r' st'.
           analyze_all now self data = Inr (r, st) \<and>
           analyze_all now' self' data' = Inr (r', st') \<and>
           corruption_score (summary r) =
             (if circle_error data then 3 else 0)
             + int (length (unknown_views data))
             + 2 * int (length (epoch_entries data))
             + (if backup_active data then 2 else 0) \<and>
           0 \<le> corruption_score (summary r) \<and>
           corruption_score (summary r) \<le> corruption_score (summary r')"
proof -
  from analyze_all_shaped [OF assms(1), of now self] obtain r st where
    a: "analyze_all now self data = Inr (r, st)" and
    s: "corruption_score (summary r) =
       (if circle_error data then 3 else 0) + int (length (unknown_views data))
       + int (length (epoch_entries data)) * 2 + (if backup_active data then 2 else 0)"
    by blast
  from analyze_all_shaped [OF assms(2), of now' self'] obtain r' st' where
    a': "analyze_all now' self' data' = Inr (r', st')" and
    s': "corruption_score (summary r') =
       (if circle_error data' then 3 else 0) + int (length (unknown_views data'))
       + int (length (epoch_entries data')) * 2 + (if backup_active data' then 2 else 0)"
    by blast
  have le: "corruption_score (summary r) \<le> corruption_score (summary r')"
    using assms(3) s s' by (auto simp: signatures_le_def)
  have nonneg: "0 \<le> corruption_score (summary r)"
    using s by simp
  show ?thesis
    using a a' s le nonneg by auto
qed

theorem corruption_score_weight_sum_witness:
  "well_shaped snapshot_six \<and> well_shaped snapshot_severe \<and>
   signatures_le snapshot_six snapshot_severe \<and>
   map_option (corruption_score \<circ> summary) (returned (analyze_all now0 init snapshot_six))
     = Some 6 \<and>
   map_option (corruption_score \<circ> summary) (returned (analyze_all now0 init snapshot_severe))
     = Some 16"
proof -
  have le: "signatures_le snapshot_six snapshot_severe"
    by (simp add: signatures_le_def signatures_examples)
  from corruption_score_weight_sum [OF shaped_examples(5) shaped_examples(1) le,
      of now0 init now0 init]
  obtain r st r' st' where
    a: "analyze_all now0 init snapshot_six = Inr (r, st)" and
    a': "analyze_all now0 init snapshot_severe = Inr (r', st')" and
    s: "corruption_score (summary r) = 6"
    by (auto simp: signatures_examples)
  from corruption_score_weight_sum [OF shaped_examples(1) shaped_examples(1),
      of now0 init now0 init] a'
  have s': "corruption_score (summary r') = 16"
    by (auto simp: signatures_le_def signatures_examples)
  show ?thesis
    using le a a' s s' by (simp add: returned_def shaped_examples)
qed

subsection \<open>C8: no state survives between calls\<close>

text \<open>
  Claim C8. After a call of \<^verbatim>\<open>analyze_all\<close> on snapshot \<open>A\<close> that left the analyzer in
  state \<open>selfA\<close>, a call on snapshot \<open>B\<close> on the same instance has exactly the outcome of
  a call on \<open>B\<close> on a fresh instance; indeed the outcome is the same from every prior
  state, since the findings list and the score are reset first. A second call on the same
  snapshot gives the report of the first one apart from the timestamp field.
\<close>

theorem no_state_leak:
  assumes "analyze_all nowA self A = Inr (rA, selfA)"
  shows "analyze_all nowB selfA B = analyze_all nowB init B \<and>
         (\<forall>prior. analyze_all nowB prior B = analyze_all nowB init B) \<and>
         drop_timestamp (analyze_all nowB selfA A) = drop_timestamp (analyze_all nowA self A)"
proof -
  have reset: "analyze_all t prior d = analyze_all t init d" for t prior d
    by (simp add: analyze_all_def reset_is_init Let_def)
  have ts: "drop_timestamp (analyze_all t init d) = drop_timestamp (analyze_all t' init d)"
    for t t' d
    by (simp add: analyze_all_def drop_timestamp_def Let_def split: sum.splits prod.splits)
  have "drop_timestamp (analyze_all nowB selfA A) = drop_timestamp (analyze_all nowA self A)"
    using reset [of nowB selfA A] reset [of nowA self A] ts [of nowB A nowA] by simp
  then show ?thesis using reset by simp
qed

theorem no_state_leak_witness:
  "returned (analyze_all now0 init snapshot_severe) \<noteq> None \<and>
   analyze_all now0 (snd (projr (analyze_all now0 init snapshot_severe))) snapshot_clean
     = analyze_all now0 init snapshot_clean \<and>
   map_option (corruption_score \<circ> summary) (returned (analyze_all now0 init snapshot_clean))
     = Some 0"
proof -
  obtain rA selfA where a: "analyze_all now0 init snapshot_severe = Inr (rA, selfA)"
    using analyze_all_shaped [OF shaped_examples(1)] by blast
  obtain rB selfB where b: "analyze_all now0 init snapshot_clean = Inr (rB, selfB)"
    and sb: "corruption_score (summary rB) = 0"
    using analyze_all_shaped [OF shaped_examples(2), of now0 init]
    by (auto simp: signatures_examples)
  from no_state_leak [OF a, of now0 snapshot_clean] a b sb
  show ?thesis by (simp add: returned_def)
qed

subsection \<open>C10: the severity of a group\<close>

text \<open>
  Claim C10. In every report each of the three finding groups has the group severity
  \<^verbatim>\<open>"none"\<close> exactly when its issues list is empty and \<^verbatim>\<open>"high"\<close> otherwise, never
  \<^verbatim>\<open>"medium"\<close>; \<^verbatim>\<open>summary.high_severity_findings\<close> counts the groups with at least one
  issue. So a PCS-view issue of severity \<^verbatim>\<open>"medium"\<close> (five or fewer unknown views) still
  makes its group \<^verbatim>\<open>"high"\<close> and is counted, as the run on \<open>snapshot_ten\<close> shows.
\<close>

theorem group_severity:
  assumes "analyze_all now self data = Inr (r, self')"
  shows "(\<forall>g \<in> set (findings r).
            (severity g = ''none'' \<longleftrightarrow> issues g = []) \<and>
            (issues g \<noteq> [] \<longrightarrow> severity g = ''high'') \<and>
            severity g \<noteq> ''medium'') \<and>
         high_severity_findings (summary r) =
           int (length (filter (\<lambda>g. issues g \<noteq> []) (findings r)))"
proof -
  from analyze_all_report(1) [OF assms] obtain r1 r2 r3 where
    f: "findings r = [r1, r2, r3]" and
    sv: "\<forall>g \<in> set [r1, r2, r3]. severity g = (if issues g = [] then ''none'' else ''high'')"
    by blast
  have each: "\<forall>g \<in> set (findings r).
            (severity g = ''none'' \<longleftrightarrow> issues g = []) \<and>
            (issues g \<noteq> [] \<longrightarrow> severity g = ''high'') \<and>
            severity g \<noteq> ''medium''"
    using f sv by auto
  have flt: "filter (\<lambda>g. severity g = ''high'') (findings r)
             = filter (\<lambda>g. issues g \<noteq> []) (findings r)"
    using each by (intro filter_cong) auto
  have cnt: "sum_list (map (\<lambda>f. 1) xs) = int (length xs)" for xs :: "finding list"
    by (induction xs) simp_all
  have "high_severity_findings (summary r) =
           int (length (filter (\<lambda>g. issues g \<noteq> []) (findings r)))"
    using analyze_all_report(8) [OF assms] flt cnt by simp
  with each show ?thesis by simp
qed

theorem group_severity_witness:
  "map_option (map severity \<circ> findings) (returned (analyze_all now0 init snapshot_ten))
     = Some [''high'', ''none'', ''high''] \<and>
   map_option (map (map issue_severity \<circ> issues) \<circ> findings)
     (returned (analyze_all now0 init snapshot_ten))
     = Some [[''high'', ''medium''], [], [''high'']] \<and>
   map_option (high_severity_findings \<circ> summary)
     (returned (analyze_all now0 init snapshot_ten)) = Some 2"
proof -
  obtain r s where a: "analyze_all now0 init snapshot_ten = Inr (r, s)" and
    f: "map (map issue_severity \<circ> issues) (findings r) = [[''high'', ''medium''], [], [''high'']]"
    using analyze_all_shaped [OF shaped_examples(4), of now0 init]
    by (auto simp: signatures_examples circle_status_issue_def unknown_views_issue_def
        backup_issue_def)
  from analyze_all_report(1) [OF a] obtain r1 r2 r3 where g: "findings r = [r1, r2, r3]"
    by blast
  from f g have i: "issues r1 \<noteq> []" "issues r2 = []" "issues r3 \<noteq> []"
    by auto
  from group_severity [OF a] g i f a
  show ?thesis by (auto simp: returned_def)
qed

subsection \<open>C3: the PCS-view rule\<close>

text \<open>
  Claim C3. On a snapshot whose \<^verbatim>\<open>status_keychain\<close> and \<^verbatim>\<open>view_status\<close> are mappings
  (or missing), the PCS-view rule collects exactly the views whose state equals
  \<^verbatim>\<open>"unknown"\<close>, in the iteration order of \<^verbatim>\<open>view_status\<close>. When there is none it emits
  no issue. Otherwise it emits one issue, with all affected view names as evidence and with
  severity \<^verbatim>\<open>"high"\<close> if there are more than five and \<^verbatim>\<open>"medium"\<close> otherwise; the score
  grows by the number of affected views (next to the 3 points of the circle-status rule,
  which the same function applies). Five unknown views give \<^verbatim>\<open>"medium"\<close>; six give
  \<^verbatim>\<open>"high"\<close> and weight 6.
\<close>

theorem pcs_view_rule:
  assumes "keychain_shaped data"
  shows "\<exists>res self'.
           analyze_keychain_status self data = Inr (res, self') \<and>
           unknown_views data =
             map fst (filter (\<lambda>kv. snd kv = JStr ''unknown'') (entries_of (view_status data))) \<and>
           (unknown_views data = [] \<longrightarrow> pcs_view_issues res = []) \<and>
           (unknown_views data \<noteq> [] \<longrightarrow>
              (\<exists>i. pcs_view_issues res = [i] \<and>
                   payload i = AffectedViews (unknown_views data) \<and>
                   issue_severity i =
                     (if 5 < length (unknown_views data) then ''high'' else ''medium''))) \<and>
           self_corruption_score self' =
             self_corruption_score self + (if circle_error data then 3 else 0)
             + int (length (unknown_views data))"
  by (simp add: keychain_shaped_result [OF assms] pcs_view_issues_def circle_status_issue_def
      unknown_views_issue_def unknown_views_def)

theorem pcs_view_rule_witness:
  "keychain_shaped snapshot_ten \<and> keychain_shaped snapshot_six \<and>
   map_option (map issue_severity \<circ> pcs_view_issues \<circ> fst)
     (case analyze_keychain_status init snapshot_ten of Inl e \<Rightarrow> None | Inr p \<Rightarrow> Some p)
     = Some [''medium''] \<and>
   map_option (map issue_severity \<circ> pcs_view_issues \<circ> fst)
     (case analyze_keychain_status init snapshot_six of Inl e \<Rightarrow> None | Inr p \<Rightarrow> Some p)
     = Some [''high''] \<and>
   map_option (self_corruption_score \<circ> snd)
     (case analyze_keychain_status init snapshot_six of Inl e \<Rightarrow> None | Inr p \<Rightarrow> Some p)
     = Some 6"
proof -
  have k: "keychain_shaped snapshot_ten" "keychain_shaped snapshot_six"
    using shaped_examples(4,5) by (simp_all add: well_shaped_def)
  from pcs_view_rule [OF k(1), of init] obtain res5 s5 where
    a5: "analyze_keychain_status init snapshot_ten = Inr (res5, s5)" and
    i5: "map issue_severity (pcs_view_issues res5) = [''medium'']"
    by (auto simp: signatures_examples)
  from pcs_view_rule [OF k(2), of init] obtain res6 s6 where
    a6: "analyze_keychain_status init snapshot_six = Inr (res6, s6)" and
    i6: "map issue_severity (pcs_view_issues res6) = [''high'']" and
    w6: "self_corruption_score s6 = 6"
    by (auto simp: signatures_examples init_def)
  show ?thesis
    using k a5 i5 a6 i6 w6 by simp
qed

subsection \<open>C4: the epoch-timestamp rule\<close>

text \<open>
  Claim C4. On a snapshot whose \<^verbatim>\<open>keychain_items\<close> is a sequence of mappings with string
  timestamps (or missing ones), an item is matched if and only if \<^verbatim>\<open>"1970-01-01"\<close> occurs
  as a substring of its \<^verbatim>\<open>creation_date\<close> or of its \<^verbatim>\<open>modification_date\<close>. When an item
  matches, the rule emits exactly one issue of severity \<^verbatim>\<open>"high"\<close> whose evidence lists
  every matched item, and the score grows by 2 for each matched item; otherwise it emits no
  issue. \<^verbatim>\<open>"1970-01-01T00:11:19Z"\<close> and \<^verbatim>\<open>"1970-01-01 00:00:00 +0000"\<close> match,
  \<^verbatim>\<open>"2024-01-15T10:30:00Z"\<close> does not.
\<close>

theorem epoch_timestamp_rule:
  assumes "timestamps_shaped data"
  shows "\<exists>res self'.
           analyze_timestamps self data = Inr (res, self') \<and>
           (\<forall>item \<in> set (elements_of (keychain_items data)).
              item \<in> set (epoch_entries data) \<longleftrightarrow>
                sublist ''1970-01-01'' (text_of (created item)) \<or>
                sublist ''1970-01-01'' (text_of (modified item))) \<and>
           (epoch_entries data = [] \<longrightarrow> issues res = []) \<and>
           (epoch_entries data \<noteq> [] \<longrightarrow>
              (\<exists>i. issues res = [i] \<and>
                   issue_type i = ''epoch_timestamps'' \<and>
                   issue_severity i = ''high'' \<and>
                   payload i = Items (map as_epoch_item (epoch_entries data)))) \<and>
           self_corruption_score self' =
             self_corruption_score self + 2 * int (length (epoch_entries data))"
  by (simp add: timestamps_shaped_result [OF assms] epoch_issue_def epoch_entries_def
      has_epoch_date_def)

theorem epoch_timestamp_rule_witness:
  "timestamps_shaped snapshot_epoch \<and>
   sublist ''1970-01-01'' ''1970-01-01T00:11:19Z'' \<and>
   sublist ''1970-01-01'' ''1970-01-01 00:00:00 +0000'' \<and>
   \<not> sublist ''1970-01-01'' ''2024-01-15T10:30:00Z'' \<and>
   map_option (map payload \<circ> issues \<circ> fst)
     (case analyze_timestamps init snapshot_epoch of Inl e \<Rightarrow> None | Inr p \<Rightarrow> Some p)
     = Some [Items [\<lparr>service = JStr ''s1'', account = JNull,
                     creation_date = JStr ''1970-01-01T00:11:19Z'',
                     modification_date = JStr []\<rparr>,
                    \<lparr>service = JStr ''s3'', account = JNull,
                     creation_date = JStr ''2024-01-15T10:30:00Z'',
                     modification_date = JStr ''1970-01-01 00:00:00 +0000''\<rparr>]] \<and>
   map_option (self_corruption_score \<circ> snd)
     (case analyze_timestamps init snapshot_epoch of Inl e \<Rightarrow> None | Inr p \<Rightarrow> Some p)
     = Some 4"
proof -
  have k: "timestamps_shaped snapshot_epoch"
    using shaped_examples(6) by (simp add: well_shaped_def)
  have e: "map as_epoch_item (epoch_entries snapshot_epoch) =
     [\<lparr>service = JStr ''s1'', account = JNull,
       creation_date = JStr ''1970-01-01T00:11:19Z'', modification_date = JStr []\<rparr>,
      \<lparr>service = JStr ''s3'', account = JNull,
       creation_date = JStr ''2024-01-15T10:30:00Z'',
       modification_date = JStr ''1970-01-01 00:00:00 +0000''\<rparr>]"
    by (simp add: path_defs snapshot_epoch_def sublist_Cons_right)
  from e have ne: "epoch_entries snapshot_epoch \<noteq> []" by auto
  from epoch_timestamp_rule [OF k, of init] obtain res s where
    a: "analyze_timestamps init snapshot_epoch = Inr (res, s)" and
    p: "map payload (issues res) = [Items (map as_epoch_item (epoch_entries snapshot_epoch))]" and
    w: "self_corruption_score s = 4"
    using ne by (auto simp: signatures_examples init_def)
  show ?thesis
    using k a p w e by (simp add: sublist_Cons_right)
qed

subsection \<open>C5: the backup-activity rule\<close>

text \<open>
  Claim C5. On a snapshot whose \<^verbatim>\<open>backup_metadata\<close> and \<^verbatim>\<open>integrity_checks\<close> are
  mappings (or missing), the backup-activity rule fires exactly when \<^verbatim>\<open>SyncZoneFetched\<close> is
  true and a \<^verbatim>\<open>NilBackupDateFetchDate\<close> timestamp is present, both read as the
  \<^verbatim>\<open>if\<close> of the code reads them: for a boolean flag and a timestamp that is a string,
  \<^verbatim>\<open>null\<close> or missing, this is a flag equal to \<^verbatim>\<open>true\<close> and a non-empty timestamp string.
  When it fires it emits exactly one issue of severity \<^verbatim>\<open>"high"\<close>, whose evidence holds the
  last-backup timestamp and the value of \<^verbatim>\<open>integrity_checks.keychain_validated\<close>
  (\<^verbatim>\<open>false\<close> when that key is missing), and adds 2 to the score; otherwise it emits no issue
  and adds nothing. The group it returns is the same whatever the other rules have
  accumulated in the analyzer before.
\<close>

theorem backup_activity_rule:
  assumes "backup_shaped data"
  shows "\<exists>res self'.
           analyze_backup_metadata self data = Inr (res, self') \<and>
           (backup_active data \<longleftrightarrow> truthy (sync_active data) \<and> truthy (last_backup data)) \<and>
           (is_bool (sync_active data) \<and> (last_backup data = JNull \<or> is_str (last_backup data))
              \<longrightarrow> (backup_active data \<longleftrightarrow>
                     sync_active data = JBool True \<and>
                     last_backup data \<noteq> JNull \<and> last_backup data \<noteq> JStr [])) \<and>
           (backup_active data \<longrightarrow>
              (\<exists>i. issues res = [i] \<and>
                   issue_type i = ''active_backup_without_validation'' \<and>
                   issue_severity i = ''high'' \<and>
                   payload i = Backup (last_backup data) (keychain_validated data)) \<and>
              self_corruption_score self' = self_corruption_score self + 2) \<and>
           (\<not> backup_active data \<longrightarrow>
              issues res = [] \<and> self_corruption_score self' = self_corruption_score self) \<and>
           (map_of (entries_of (integrity_checks data)) ''keychain_validated'' = None \<longrightarrow>
              keychain_validated data = JBool False) \<and>
           (\<forall>other. map_sum id fst (analyze_backup_metadata other data) = Inr res)"
proof -
  have typed: "is_bool (sync_active data) \<and> (last_backup data = JNull \<or> is_str (last_backup data))
              \<longrightarrow> (backup_active data \<longleftrightarrow>
                     sync_active data = JBool True \<and>
                     last_backup data \<noteq> JNull \<and> last_backup data \<noteq> JStr [])"
    by (cases "sync_active data"; cases "last_backup data")
       (auto simp: backup_active_def is_bool_def is_str_def)
  have dflt: "map_of (entries_of (integrity_checks data)) ''keychain_validated'' = None \<longrightarrow>
              keychain_validated data = JBool False"
    by (simp add: keychain_validated_def dict_get_def)
  show ?thesis
    using typed dflt
    by (simp add: backup_shaped_result [OF assms] backup_issue_def backup_active_def)
qed

theorem backup_activity_rule_witness:
  "backup_shaped snapshot_five \<and> backup_shaped snapshot_clean \<and>
   map_option (map payload \<circ> issues \<circ> fst)
     (case analyze_backup_metadata init snapshot_five of Inl e \<Rightarrow> None | Inr p \<Rightarrow> Some p)
     = Some [Backup (JStr ''2025-03-02T08:00:00Z'') (JBool False)] \<and>
   map_option (self_corruption_score \<circ> snd)
     (case analyze_backup_metadata init snapshot_five of Inl e \<Rightarrow> None | Inr p \<Rightarrow> Some p)
     = Some 2 \<and>
   map_option (issues \<circ> fst)
     (case analyze_backup_metadata init snapshot_clean of Inl e \<Rightarrow> None | Inr p \<Rightarrow> Some p)
     = Some []"
proof -
  have k: "backup_shaped snapshot_five" "backup_shaped snapshot_clean"
    using shaped_examples(3,2) by (simp_all add: well_shaped_def)
  have v: "last_backup snapshot_five = JStr ''2025-03-02T08:00:00Z''"
    "keychain_validated snapshot_five = JBool False"
    "sync_active snapshot_five = JBool True"
    by (simp_all add: path_defs snapshot_five_def)
  from backup_activity_rule [OF k(1), of init] obtain res s where
    a: "analyze_backup_metadata init snapshot_five = Inr (res, s)" and
    p: "map payload (issues res) = [Backup (JStr ''2025-03-02T08:00:00Z'') (JBool False)]" and
    w: "self_corruption_score s = 2"
    using signatures_examples(12) by (auto simp: v init_def)
  from backup_activity_rule [OF k(2), of init] obtain res' s' where
    a': "analyze_backup_metadata init snapshot_clean = Inr (res', s')" and
    p': "issues res' = []"
    using signatures_examples(8) by auto
  show ?thesis
    using k a p w a' p' by simp
qed

subsection \<open>C2: the assessment label\<close>

text \<open>The scores of the example snapshots.\<close>

lemma run_ten:
  "\<exists>r s. analyze_all now0 init snapshot_ten = Inr (r, s) \<and> corruption_score (summary r) = 10"
  using analyze_all_shaped [OF shaped_examples(4), of now0 init]
  by (auto simp: signatures_examples)

lemma run_five:
  "\<exists>r s. analyze_all now0 init snapshot_five = Inr (r, s) \<and> corruption_score (summary r) = 5"
  using analyze_all_shaped [OF shaped_examples(3), of now0 init]
  by (auto simp: signatures_examples)

lemma run_severe:
  "\<exists>r s. analyze_all now0 init snapshot_severe = Inr (r, s) \<and> corruption_score (summary r) = 16"
  using analyze_all_shaped [OF shaped_examples(1), of now0 init]
  by (auto simp: signatures_examples)

lemma run_clean:
  "\<exists>r s. analyze_all now0 init snapshot_clean = Inr (r, s) \<and> corruption_score (summary r) = 0"
  using analyze_all_shaped [OF shaped_examples(2), of now0 init]
  by (auto simp: signatures_examples)

text \<open>
  Claim C2, as stated, gives the labels with an em dash. The code writes them with the ASCII
  hyphen-minus: the snapshot \<open>snapshot_ten\<close> has score 10 and the label
  \<^verbatim>\<open>SEVERE - Multiple corruption indicators present\<close>, which is not the text of the
  specification.
\<close>

theorem assessment_label_counterexample:
  "map_option (corruption_score \<circ> summary) (returned (analyze_all now0 init snapshot_ten))
     = Some 10 \<and>
   map_option (assessment \<circ> summary) (returned (analyze_all now0 init snapshot_ten))
     = Some ''SEVERE - Multiple corruption indicators present'' \<and>
   ''SEVERE - Multiple corruption indicators present'' \<noteq> spec_assessment 10"
proof -
  from run_ten obtain r s where a: "analyze_all now0 init snapshot_ten = Inr (r, s)"
    and sc: "corruption_score (summary r) = 10" by blast
  have "assessment (summary r) = ''SEVERE - Multiple corruption indicators present''"
    using analyze_all_report(3,9) [OF a] sc by (simp add: assess_corruption_level_def)
  then show ?thesis
    using a sc by (simp add: returned_def spec_assessment_def em_dash_def)
qed


text \<open>
  Claim C2, amended. The label of a returned report is determined by its corruption score
  alone, with inclusive lower bounds: a score of at least 10 gives
  \<^verbatim>\<open>SEVERE - Multiple corruption indicators present\<close>, a score from 5 to 9
  \<^verbatim>\<open>MODERATE - Significant corruption detected\<close>, a score from 1 to 4
  \<^verbatim>\<open>MILD - Some issues detected\<close>, and the score 0
  \<^verbatim>\<open>CLEAN - No corruption indicators found\<close>, each written with a hyphen-minus. The score
  is never negative, so the four cases are all there are; 5 selects MODERATE and 10 SEVERE.
\<close>

theorem assessment_by_score:
  assumes "analyze_all now self data = Inr (r, self')"
  shows "0 \<le> corruption_score (summary r) \<and>
         (10 \<le> corruption_score (summary r) \<longrightarrow>
            assessment (summary r) = ''SEVERE - Multiple corruption indicators present'') \<and>
         (5 \<le> corruption_score (summary r) \<and> corruption_score (summary r) < 10 \<longrightarrow>
            assessment (summary r) = ''MODERATE - Significant corruption detected'') \<and>
         (0 < corruption_score (summary r) \<and> corruption_score (summary r) < 5 \<longrightarrow>
            assessment (summary r) = ''MILD - Some issues detected'') \<and>
         (corruption_score (summary r) = 0 \<longrightarrow>
            assessment (summary r) = ''CLEAN - No corruption indicators found'')"
  using analyze_all_report(3,4,9) [OF assms]
  by (simp add: assess_corruption_level_def)

theorem assessment_by_score_witness:
  "map_option (assessment \<circ> summary) (returned (analyze_all now0 init snapshot_ten))
     = Some ''SEVERE - Multiple corruption indicators present'' \<and>
   map_option (assessment \<circ> summary) (returned (analyze_all now0 init snapshot_five))
     = Some ''MODERATE - Significant corruption detected'' \<and>
   map_option (assessment \<circ> summary) (returned (analyze_all now0 init snapshot_six))
     = Some ''MODERATE - Significant corruption detected'' \<and>
   map_option (assessment \<circ> summary) (returned (analyze_all now0 init snapshot_epoch))
     = Some ''MILD - Some issues detected'' \<and>
   map_option (assessment \<circ> summary) (returned (analyze_all now0 init snapshot_clean))
     = Some ''CLEAN - No corruption indicators found''"
proof -
  from run_ten obtain r10 s10 where a10: "analyze_all now0 init snapshot_ten = Inr (r10, s10)"
    and sc10: "corruption_score (summary r10) = 10" by blast
  from run_five obtain r5 s5 where a5: "analyze_all now0 init snapshot_five = Inr (r5, s5)"
    and sc5: "corruption_score (summary r5) = 5" by blast
  from analyze_all_shaped [OF shaped_examples(5), of now0 init]
  obtain r6 s6 where a6: "analyze_all now0 init snapshot_six = Inr (r6, s6)"
    and sc6: "corruption_score (summary r6) = 6" by (auto simp: signatures_examples)
  from analyze_all_shaped [OF shaped_examples(6), of now0 init]
  obtain r4 s4 where a4: "analyze_all now0 init snapshot_epoch = Inr (r4, s4)"
    and sc4: "corruption_score (summary r4) = 4" by (auto simp: signatures_examples)
  from run_clean obtain r0 s0 where a0: "analyze_all now0 init snapshot_clean = Inr (r0, s0)"
    and sc0: "corruption_score (summary r0) = 0" by blast
  show ?thesis
    using assessment_by_score [OF a10] assessment_by_score [OF a5] assessment_by_score [OF a6]
      assessment_by_score [OF a4] assessment_by_score [OF a0]
      a10 a5 a6 a4 a0 sc10 sc5 sc6 sc4 sc0
    by (simp add: returned_def)
qed

subsection \<open>C6: the recommendations\<close>

text \<open>
  Claim C6, as stated, quotes the four recommendations and the urgency marker in the words
  of the specification. The code has other texts: \<open>snapshot_five\<close> has score 5 and its
  recommendations are not those of the specification.
\<close>

theorem recommendations_counterexample:
  "map_option (corruption_score \<circ> summary) (returned (analyze_all now0 init snapshot_five))
     = Some 5 \<and>
   map_option recommendations (returned (analyze_all now0 init snapshot_five))
     = Some [''DO NOT restore from this backup to new devices'',
             ''Collect sysdiagnose for documentation'',
             ''Contact Apple Support with case reference'',
             ''Consider creating new clean backup after remediation''] \<and>
   [''DO NOT restore from this backup to new devices'',
    ''Collect sysdiagnose for documentation'',
    ''Contact Apple Support with case reference'',
    ''Consider creating new clean backup after remediation''] \<noteq> spec_recommendations 5"
proof -
  from run_five obtain r s where a: "analyze_all now0 init snapshot_five = Inr (r, s)"
    and sc: "corruption_score (summary r) = 5" by blast
  have "recommendations r = [''DO NOT restore from this backup to new devices'',
             ''Collect sysdiagnose for documentation'',
             ''Contact Apple Support with case reference'',
             ''Consider creating new clean backup after remediation'']"
    using analyze_all_report(3,10) [OF a] sc by (simp add: generate_recommendations_def)
  then show ?thesis
    using a sc by (simp add: returned_def spec_recommendations_def)
qed


text \<open>
  Claim C6, amended. The recommendation list of a returned report is empty exactly when the
  corruption score is 0. For a positive score below 10 it is, in this order,
  \<^verbatim>\<open>DO NOT restore from this backup to new devices\<close>,
  \<^verbatim>\<open>Collect sysdiagnose for documentation\<close>,
  \<^verbatim>\<open>Contact Apple Support with case reference\<close>,
  \<^verbatim>\<open>Consider creating new clean backup after remediation\<close>. For a score of at least 10
  the marker \<^verbatim>\<open>URGENT: Severe corruption detected - avoid using this backup\<close> comes first,
  ahead of these four, which gives exactly five entries.
\<close>

theorem recommendations_by_score:
  assumes "analyze_all now self data = Inr (r, self')"
  shows "(recommendations r = [] \<longleftrightarrow> corruption_score (summary r) = 0) \<and>
         (0 < corruption_score (summary r) \<and> corruption_score (summary r) < 10 \<longrightarrow>
            recommendations r =
              [''DO NOT restore from this backup to new devices'',
               ''Collect sysdiagnose for documentation'',
               ''Contact Apple Support with case reference'',
               ''Consider creating new clean backup after remediation'']) \<and>
         (10 \<le> corruption_score (summary r) \<longrightarrow>
            recommendations r =
              [''URGENT: Severe corruption detected - avoid using this backup'',
               ''DO NOT restore from this backup to new devices'',
               ''Collect sysdiagnose for documentation'',
               ''Contact Apple Support with case reference'',
               ''Consider creating new clean backup after remediation''] \<and>
            length (recommendations r) = 5)"
  using analyze_all_report(3,4,10) [OF assms]
  by (auto simp: generate_recommendations_def Let_def)

theorem recommendations_by_score_witness:
  "map_option (length \<circ> recommendations) (returned (analyze_all now0 init snapshot_severe))
     = Some 5 \<and>
   map_option (hd \<circ> recommendations) (returned (analyze_all now0 init snapshot_severe))
     = Some ''URGENT: Severe corruption detected - avoid using this backup'' \<and>
   map_option (length \<circ> recommendations) (returned (analyze_all now0 init snapshot_five))
     = Some 4 \<and>
   map_option recommendations (returned (analyze_all now0 init snapshot_clean)) = Some []"
proof -
  from run_severe obtain r16 s16 where
    a16: "analyze_all now0 init snapshot_severe = Inr (r16, s16)"
    and sc16: "corruption_score (summary r16) = 16" by blast
  from run_five obtain r5 s5 where a5: "analyze_all now0 init snapshot_five = Inr (r5, s5)"
    and sc5: "corruption_score (summary r5) = 5" by blast
  from run_clean obtain r0 s0 where a0: "analyze_all now0 init snapshot_clean = Inr (r0, s0)"
    and sc0: "corruption_score (summary r0) = 0" by blast
  show ?thesis
    using recommendations_by_score [OF a16] recommendations_by_score [OF a5]
      recommendations_by_score [OF a0] a16 a5 a0 sc16 sc5 sc0
    by (simp add: returned_def)
qed

subsection \<open>C7: snapshots that make the analysis raise\<close>

text \<open>
  Claim C7, as stated, says that \<^verbatim>\<open>analyze_all\<close> never raises, whatever the shape of the
  snapshot. The defaults of the lookups cover missing keys only. A section that is present
  but is not a mapping has no \<^verbatim>\<open>get\<close> method, and a timestamp that is \<^verbatim>\<open>null\<close> cannot be
  the right operand of \<^verbatim>\<open>in\<close>: the first snapshot below raises \<^verbatim>\<open>AttributeError\<close>, the
  second \<^verbatim>\<open>TypeError\<close>.
\<close>

theorem malformed_snapshot_counterexample:
  "analyze_all now0 init [(''status_keychain'', JNull)] = Inl AttributeError \<and>
   analyze_all now0 init [(''keychain_items'', JList [JDict [(''creation_date'', JNull)]])]
     = Inl TypeError"
  by (simp add: analyze_all_def analyze_keychain_status_def analyze_timestamps_def
      epoch_match_def dict_get_def get_def items_def iterate_def py_in_def Let_def)


text \<open>
  Claim C7, amended. For every input mapping in which each section that is present has the
  shape of the data model (\<^verbatim>\<open>status_keychain\<close>, \<^verbatim>\<open>view_status\<close>, \<^verbatim>\<open>backup_metadata\<close> and
  \<^verbatim>\<open>integrity_checks\<close> are mappings, \<^verbatim>\<open>keychain_items\<close> is a sequence of mappings whose
  timestamps are strings), including the empty snapshot and snapshots with any keys
  missing, \<^verbatim>\<open>analyze_all\<close> returns a report: a missing section means that its rule
  reports no issue, and a snapshot without any signature yields score 0, the label
  \<^verbatim>\<open>CLEAN - No corruption indicators found\<close>, no issues and no recommendations.
\<close>

theorem analyze_all_total_on_shaped:
  assumes "well_shaped data"
  shows "\<exists>r self'.
           analyze_all now self data = Inr (r, self') \<and>
           (map_of data ''status_keychain'' = None \<longrightarrow> issues (findings r ! 0) = []) \<and>
           (map_of data ''keychain_items'' = None \<longrightarrow> issues (findings r ! 1) = []) \<and>
           (map_of data ''backup_metadata'' = None \<longrightarrow> issues (findings r ! 2) = []) \<and>
           (\<not> circle_error data \<and> unknown_views data = [] \<and> epoch_entries data = [] \<and>
            \<not> backup_active data \<longrightarrow>
              corruption_score (summary r) = 0 \<and>
              assessment (summary r) = ''CLEAN - No corruption indicators found'' \<and>
              total_issues (summary r) = 0 \<and>
              (\<forall>g \<in> set (findings r). issues g = []) \<and>
              recommendations r = [])"
proof -
  from analyze_all_shaped [OF assms, of now self] obtain r self' where
    a: "analyze_all now self data = Inr (r, self')" and
    f: "findings r =
       [\<lparr>name = ''Keychain Status Analysis'',
         issues = (if circle_error data then [circle_status_issue] else [])
                  @ (if unknown_views data = [] then []
                     else [unknown_views_issue (unknown_views data)]),
         severity = (if circle_error data \<or> unknown_views data \<noteq> []
                     then ''high'' else ''none'')\<rparr>,
        \<lparr>name = ''Timestamp Validation'',
         issues = (if epoch_entries data = [] then []
                   else [epoch_issue (map as_epoch_item (epoch_entries data))]),
         severity = (if epoch_entries data = [] then ''none'' else ''high'')\<rparr>,
        \<lparr>name = ''Backup Activity Analysis'',
         issues = (if backup_active data
                   then [backup_issue (last_backup data) (keychain_validated data)] else []),
         severity = (if backup_active data then ''high'' else ''none'')\<rparr>]" and
    sc: "corruption_score (summary r) =
       (if circle_error data then 3 else 0) + int (length (unknown_views data))
       + int (length (epoch_entries data)) * 2 + (if backup_active data then 2 else 0)"
    by blast
  have m1: "map_of data ''status_keychain'' = None \<longrightarrow> issues (findings r ! 0) = []"
    using f by (simp add: path_defs)
  have m2: "map_of data ''keychain_items'' = None \<longrightarrow> issues (findings r ! 1) = []"
    using f by (simp add: path_defs)
  have m3: "map_of data ''backup_metadata'' = None \<longrightarrow> issues (findings r ! 2) = []"
    using f by (simp add: path_defs)
  have clean: "\<not> circle_error data \<and> unknown_views data = [] \<and> epoch_entries data = [] \<and>
            \<not> backup_active data \<longrightarrow>
              corruption_score (summary r) = 0 \<and>
              assessment (summary r) = ''CLEAN - No corruption indicators found'' \<and>
              total_issues (summary r) = 0 \<and>
              (\<forall>g \<in> set (findings r). issues g = []) \<and>
              recommendations r = []"
    using f sc analyze_all_report(3,7,9,10) [OF a]
    by (simp add: assess_corruption_level_def generate_recommendations_def)
  show ?thesis
    using a m1 m2 m3 clean
    by (intro exI [of _ r] exI [of _ self'] conjI) assumption+
qed

theorem analyze_all_total_on_shaped_witness:
  "well_shaped [] \<and>
   map_option (corruption_score \<circ> summary) (returned (analyze_all now0 init [])) = Some 0 \<and>
   map_option (assessment \<circ> summary) (returned (analyze_all now0 init []))
     = Some ''CLEAN - No corruption indicators found'' \<and>
   map_option (map issues \<circ> findings) (returned (analyze_all now0 init []))
     = Some [[], [], []] \<and>
   map_option recommendations (returned (analyze_all now0 init [])) = Some []"
proof -
  from analyze_all_total_on_shaped [OF shaped_examples(7), of now0 init]
  obtain r s where a: "analyze_all now0 init [] = Inr (r, s)" and
    c: "corruption_score (summary r) = 0"
       "assessment (summary r) = ''CLEAN - No corruption indicators found''"
       "\<forall>g \<in> set (findings r). issues g = []"
       "recommendations r = []"
    by (auto simp: signatures_examples)
  from analyze_all_report(1) [OF a] obtain r1 r2 r3 where f: "findings r = [r1, r2, r3]"
    by blast
  show ?thesis
    using a c f shaped_examples(7) by (simp add: returned_def)
qed

end
